theory Spec2Isabelle
  imports Main "HOL-Library.Char_ord" "HOL-Library.List_Lexorder"
begin

section \<open>Python strings\<close>

text \<open>
  Strings are character lists. The embedding covers ASCII text: \<open>str.isspace\<close>,
  \<open>str.lower\<close> and the regular-expression class \<open>\d\<close> are given on the ASCII range,
  and every other character is neither whitespace, nor a digit, nor changed by \<open>lower\<close>.
\<close>

definition newline :: char where
  "newline = CHR 0x0A"

definition is_space :: "char \<Rightarrow> bool" where
  "is_space c \<longleftrightarrow>
     c \<in> set [CHR 0x09, CHR 0x0A, CHR 0x0B, CHR 0x0C, CHR 0x0D,
              CHR 0x1C, CHR 0x1D, CHR 0x1E, CHR 0x1F, CHR '' '']"

definition is_digit :: "char \<Rightarrow> bool" where
  "is_digit c \<longleftrightarrow> c \<in> set ''0123456789''"

definition lower_char :: "char \<Rightarrow> char" where
  "lower_char c =
     (case map_of (zip ''ABCDEFGHIJKLMNOPQRSTUVWXYZ'' ''abcdefghijklmnopqrstuvwxyz'') c of
        None \<Rightarrow> c
      | Some d \<Rightarrow> d)"

definition upper_char :: "char \<Rightarrow> char" where
  "upper_char c =
     (case map_of (zip ''abcdefghijklmnopqrstuvwxyz'' ''ABCDEFGHIJKLMNOPQRSTUVWXYZ'') c of
        None \<Rightarrow> c
      | Some d \<Rightarrow> d)"

definition is_cased :: "char \<Rightarrow> bool" where
  "is_cased c \<longleftrightarrow> c \<in> set ''ABCDEFGHIJKLMNOPQRSTUVWXYZabcdefghijklmnopqrstuvwxyz''"

text \<open>\<open>s.lower()\<close>\<close>

definition lower :: "string \<Rightarrow> string" where
  "lower s = map lower_char s"

text \<open>\<open>s.lstrip()\<close>, \<open>s.rstrip()\<close>, \<open>s.strip()\<close>\<close>

definition lstrip :: "string \<Rightarrow> string" where
  "lstrip s = dropWhile is_space s"

definition rstrip :: "string \<Rightarrow> string" where
  "rstrip s = rev (dropWhile is_space (rev s))"

definition strip :: "string \<Rightarrow> string" where
  "strip s = rstrip (lstrip s)"

text \<open>\<open>s.replace(a, b)\<close> for one-character \<open>a\<close> and \<open>b\<close>, and \<open>s.replace(a, "")\<close>\<close>

definition replace_char :: "char \<Rightarrow> char \<Rightarrow> string \<Rightarrow> string" where
  "replace_char a b s = map (\<lambda>c. if c = a then b else c) s"

definition delete_char :: "char \<Rightarrow> string \<Rightarrow> string" where
  "delete_char a s = filter (\<lambda>c. c \<noteq> a) s"

text \<open>\<open>s.split(",")\<close> (and \<open>s.rsplit(",")\<close>, which without a limit gives the same list)\<close>

fun split_on :: "char \<Rightarrow> string \<Rightarrow> string list" where
  "split_on d [] = [[]]"
| "split_on d (c # cs) =
     (if c = d then [] # split_on d cs
      else (case split_on d cs of
              [] \<Rightarrow> [[c]]
            | w # ws \<Rightarrow> (c # w) # ws))"

text \<open>\<open>s.title()\<close>: a cased character is upper-cased after an uncased one and
  lower-cased after a cased one.\<close>

fun title_from :: "bool \<Rightarrow> string \<Rightarrow> string" where
  "title_from prev [] = []"
| "title_from prev (c # cs) =
     (if prev then lower_char c else upper_char c) # title_from (is_cased c) cs"

definition title_case :: "string \<Rightarrow> string" where
  "title_case s = title_from False s"

text \<open>\<open>str(n)\<close> for a natural number\<close>

fun digits_of :: "nat \<Rightarrow> nat \<Rightarrow> string" where
  "digits_of 0 n = []"
| "digits_of (Suc fuel) n =
     (if n < 10 then [''0123456789'' ! n]
      else digits_of fuel (n div 10) @ [''0123456789'' ! (n mod 10)])"

definition str_nat :: "nat \<Rightarrow> string" where
  "str_nat n = digits_of (Suc n) n"

section \<open>Python exceptions\<close>

datatype oserr =
  FileExists | FileNotFound | NotADirectory | IsADirectory | DirectoryNotEmpty | NameTooLong

text \<open>An \<open>OSError\<close> carries its kind, the path the system call was given
  (\<open>e.filename\<close>) and the notes attached with \<open>e.add_note\<close>.\<close>

datatype error =
    ValueError string
  | TypeError string
  | IndexError string
  | KeyError string
  | RuntimeError string
  | OSError oserr string "string list"

section \<open>Regular expressions\<close>

text \<open>
  The constructs the two patterns of the program use. \<open>Digits n\<close> is \<open>\d{n}\<close>,
  \<open>Dot_lazy_plus\<close> is \<open>.+?\<close>, \<open>Dot_star\<close> is \<open>.*\<close>, \<open>Group n r\<close> is the
  \<open>n\<close>-th capturing group, \<open>Ahead r\<close> is \<open>(?=r)\<close>, \<open>Behind_lit l\<close> is \<open>(?<=l)\<close> for a
  literal, \<open>Behind_ref n\<close> is \<open>(?<=\n)\<close> and \<open>Eol\<close> is \<open>$\<close>. No flag is set: the dot
  matches every character except the newline, and \<open>$\<close> matches at the end of the string
  and before a newline that ends it.
\<close>

datatype rx =
    Lit string
  | Digits nat
  | Dot_lazy_plus
  | Dot_star
  | Group nat rx
  | Cat rx rx
  | Alt rx rx
  | Ahead rx
  | Behind_lit string
  | Behind_ref nat
  | Eol

text \<open>A matcher state: the text consumed so far (reversed), the text still to read, and
  the capture groups.\<close>

type_synonym mstate = "string \<times> string \<times> (nat \<rightharpoonup> string)"

text \<open>The states after the dot has consumed one, two, ... characters, shortest first.\<close>

fun dot_runs :: "string \<Rightarrow> string \<Rightarrow> (nat \<rightharpoonup> string) \<Rightarrow> mstate list" where
  "dot_runs b [] c = []"
| "dot_runs b (x # xs) c =
     (if x = newline then [] else (x # b, xs, c) # dot_runs (x # b) xs c)"

text \<open>All the ways a pattern matches at a state, in the order a backtracking matcher
  tries them; the match it reports is the first that lets the rest of the pattern match.\<close>

fun rx_match :: "rx \<Rightarrow> mstate \<Rightarrow> mstate list" where
  "rx_match (Lit l) (b, s, c) =
     (if take (length l) s = l then [(rev l @ b, drop (length l) s, c)] else [])"
| "rx_match (Digits n) (b, s, c) =
     (if n \<le> length s \<and> (\<forall>ch \<in> set (take n s). is_digit ch)
      then [(rev (take n s) @ b, drop n s, c)] else [])"
| "rx_match Dot_lazy_plus (b, s, c) = dot_runs b s c"
| "rx_match Dot_star (b, s, c) = rev ((b, s, c) # dot_runs b s c)"
| "rx_match (Group n r) (b, s, c) =
     map (\<lambda>(b', s', c'). (b', s', c'(n \<mapsto> rev (take (length b' - length b) b'))))
       (rx_match r (b, s, c))"
| "rx_match (Cat r1 r2) st = concat (map (rx_match r2) (rx_match r1 st))"
| "rx_match (Alt r1 r2) st = rx_match r1 st @ rx_match r2 st"
| "rx_match (Ahead r) (b, s, c) =
     (case rx_match r (b, s, c) of
        [] \<Rightarrow> []
      | (b', s', c') # _ \<Rightarrow> [(b, s, c')])"
| "rx_match (Behind_lit l) (b, s, c) =
     (if take (length l) b = rev l then [(b, s, c)] else [])"
| "rx_match (Behind_ref n) (b, s, c) =
     (case c n of
        None \<Rightarrow> []
      | Some g \<Rightarrow> if take (length g) b = rev g then [(b, s, c)] else [])"
| "rx_match Eol (b, s, c) = (if s = [] \<or> s = [newline] then [(b, s, c)] else [])"

fun rx_seq :: "rx list \<Rightarrow> rx" where
  "rx_seq [] = Lit []"
| "rx_seq [r] = r"
| "rx_seq (r # rs) = Cat r (rx_seq rs)"

text \<open>\<open>regex.match(pattern, string)\<close>: the match anchored at the start of the string,
  as its capture groups.\<close>

definition regex_match :: "rx \<Rightarrow> string \<Rightarrow> (nat \<rightharpoonup> string) option" where
  "regex_match r s =
     (case rx_match r ([], s, Map.empty) of
        [] \<Rightarrow> None
      | (b, s', c) # _ \<Rightarrow> Some c)"

text \<open>\<open>regex.split(pattern, string)\<close> for a pattern without capture groups: the text
  between the successive non-empty matches, found from left to right. The counter is the
  number of characters of the current match still to skip.\<close>

fun rx_split_from :: "rx \<Rightarrow> string \<Rightarrow> string \<Rightarrow> nat \<Rightarrow> string \<Rightarrow> string list" where
  "rx_split_from r b [] k piece = [rev piece]"
| "rx_split_from r b (x # xs) (Suc k) piece = rx_split_from r (x # b) xs k piece"
| "rx_split_from r b (x # xs) 0 piece =
     (case rx_match r (b, x # xs, Map.empty) of
        [] \<Rightarrow> rx_split_from r (x # b) xs 0 (x # piece)
      | (b', s', c') # _ \<Rightarrow>
          if length b < length b'
          then rev piece # rx_split_from r (x # b) xs (length b' - length b - 1) []
          else rx_split_from r (x # b) xs 0 (x # piece))"

definition regex_split :: "rx \<Rightarrow> string \<Rightarrow> string list" where
  "regex_split r s = rx_split_from r [] s 0 []"

section \<open>The note record\<close>

text \<open>A note is the dictionary of the four named groups; \<open>filename\<close> and
  \<open>cleaned_tags\<close> are the keys that later stages add.\<close>

record note_record =
  datetime :: string
  title :: string
  content :: string
  tags :: string
  filename :: "string option"
  cleaned_tags :: "string list option"

section \<open>Field extraction\<close>

definition timestamp_rx :: rx where
  "timestamp_rx =
     rx_seq [Digits 4, Lit ''-'', Digits 2, Lit ''-'', Digits 2, Lit '' '',
             Digits 2, Lit '':'', Digits 2, Lit '':'', Digits 2]"

text \<open>The five entries of \<open>regexps\<close>, concatenated in the order of the dictionary.\<close>

definition regexps :: "rx list" where
  "regexps =
     [ Group 1 timestamp_rx,
       Lit '' - '',
       Group 2 (Cat Dot_lazy_plus (Ahead (Alt (Lit ''.'') (Lit ''?'')))),
       rx_seq [Behind_ref 2, Lit ''. '', Group 3 Dot_lazy_plus, Ahead (Lit '' tag'')],
       rx_seq [Behind_ref 3, Lit '' tags: '', Group 4 Dot_star, Eol] ]"

definition regexp :: rx where
  "regexp = rx_seq regexps"

text \<open>\<open>match.groupdict()\<close>: all four groups lie on the only path through the pattern,
  so a match has set each of them.\<close>

definition groupdict :: "(nat \<rightharpoonup> string) \<Rightarrow> note_record option" where
  "groupdict c =
     (case (c 1, c 2, c 3, c 4) of
        (Some d, Some t, Some co, Some ta) \<Rightarrow>
          Some \<lparr>datetime = d, title = t, content = co, tags = ta,
                filename = None, cleaned_tags = None\<rparr>
      | _ \<Rightarrow> None)"

definition extract_note_fields :: "string \<Rightarrow> note_record option" where
  "extract_note_fields note =
     (case regex_match regexp note of
        None \<Rightarrow> None
      | Some c \<Rightarrow> groupdict c)"


section \<open>Batch extraction\<close>

text \<open>
  \<open>check_notes_without_matches\<close> computes the number, the indexes and the texts of the
  blocks without a match, and then enters \<open>with ValueError as e:\<close>. The class
  \<open>ValueError\<close> is not a context manager, so the statement raises \<open>TypeError\<close>
  before its body (the three \<open>add_note\<close> calls) runs.
\<close>

definition check_notes_without_matches ::
    "string list \<Rightarrow> note_record option list \<Rightarrow> error + unit" where
  "check_notes_without_matches notes decomposed_notes =
     (let n_no_match =
            int (length notes) - int (length (filter (\<lambda>n. n \<noteq> None) decomposed_notes));
          no_match_indexes =
            map fst (filter (\<lambda>(idx, n). n = None) (enumerate 0 decomposed_notes));
          no_match_notes = map (\<lambda>i. notes ! i) no_match_indexes
      in if no_match_indexes \<noteq> []
         then Inl (TypeError
                ([CHR 0x27] @ ''type'' @ [CHR 0x27] @
                 '' object does not support the context manager protocol''))
         else Inr ())"

definition decompose_notes :: "string list \<Rightarrow> error + note_record option list" where
  "decompose_notes notes =
     (let decomposed_notes = map extract_note_fields notes
      in case check_notes_without_matches notes decomposed_notes of
           Inl e \<Rightarrow> Inl e
         | Inr _ \<Rightarrow>
             if \<not> (\<exists>n \<in> set decomposed_notes. n \<noteq> None)
             then Inl (ValueError ''a match was not found in a note'')
             else Inr decomposed_notes)"

section \<open>External collaborators\<close>

text \<open>
  What the program takes from outside its two source files: the constant
  \<open>definitions.ROOT\<close>, the date parser (\<open>parse(s).isoformat()\<close>, with \<open>None\<close> for
  \<open>ParserError\<close>), \<open>pformat\<close> on a list of dictionaries, the clock read by the
  \<open>n\<close>-th call of \<open>datetime.now().isoformat()\<close>, and the serialisation of a post by
  \<open>frontmatter.dump\<close>.
\<close>

record post =
  post_content :: string
  post_tags :: "string list"
  cdt :: string
  mdt :: string

record env =
  ROOT :: string
  parse_isoformat :: "string \<Rightarrow> string option"
  pformat :: "(string \<times> string) list list \<Rightarrow> string"
  now_isoformat :: "nat \<Rightarrow> string"
  dumps :: "post \<Rightarrow> string"

section \<open>Datetime validation\<close>

text \<open>The loop of \<open>validate_datetimes\<close>: the notes with their \<open>datetime\<close> rewritten, and
  \<open>no_parse_date_notes\<close>. A \<open>None\<close> among the notes cannot be subscripted.\<close>

fun normalise_datetimes ::
    "env \<Rightarrow> note_record option list \<Rightarrow> error + (note_record list \<times> note_record list)" where
  "normalise_datetimes ev [] = Inr ([], [])"
| "normalise_datetimes ev (None # ns) =
     Inl (TypeError ([CHR 0x27] @ ''NoneType'' @ [CHR 0x27] @ '' object is not subscriptable''))"
| "normalise_datetimes ev (Some n # ns) =
     (let old_dt = datetime n;
          (n', failed) =
            (case parse_isoformat ev old_dt of
               Some new_dt \<Rightarrow> (n\<lparr>datetime := new_dt\<rparr>, [])
             | None \<Rightarrow> (n\<lparr>datetime := old_dt\<rparr>, [n\<lparr>datetime := old_dt\<rparr>]))
      in case normalise_datetimes ev ns of
           Inl e \<Rightarrow> Inl e
         | Inr (ns', no_parse) \<Rightarrow> Inr (n' # ns', failed @ no_parse))"

definition date_titles :: "note_record list \<Rightarrow> (string \<times> string) list list" where
  "date_titles no_parse_date_notes =
     map (\<lambda>n. [(''datetime'', datetime n), (''title'', title n)]) no_parse_date_notes"

definition err_str :: "env \<Rightarrow> note_record list \<Rightarrow> string" where
  "err_str ev no_parse_date_notes =
     ''Some note datetimes were unable to be parsed. '' @
     str_nat (length no_parse_date_notes) @
     '' were not parsed. They are as follows:'' @ [newline, newline] @
     pformat ev (date_titles no_parse_date_notes)"

definition validate_datetimes ::
    "env \<Rightarrow> note_record option list \<Rightarrow> error + note_record list" where
  "validate_datetimes ev notes =
     (case normalise_datetimes ev notes of
        Inl e \<Rightarrow> Inl e
      | Inr (notes', no_parse_date_notes) \<Rightarrow>
          if no_parse_date_notes \<noteq> []
          then Inl (ValueError (err_str ev no_parse_date_notes))
          else Inr notes')"

section \<open>The file system\<close>

text \<open>
  Directories and files are known by their path as \<open>pathlib\<close> spells it: without empty
  and \<open>.\<close> components, and with \<open>..\<close> kept (two leading slashes, which \<open>pathlib\<close>
  keeps, are not distinguished from one). A path names its parent by the text before its
  last slash. The model has no links and no permissions, does not resolve \<open>..\<close>, and an
  entry can be created only in a directory that exists. A path with a NUL character is
  refused by every system call with \<open>ValueError\<close>, before the file system is asked; a
  last component of more than 255 characters is refused with \<open>ENAMETOOLONG\<close> (the limit
  of Linux and macOS). No entry of a state has a NUL in its path, and \<open>Path.exists\<close> is
  false for such a path; the program asks \<open>Path.exists\<close> only of names that the probe
  has accepted.
\<close>

record fs =
  dirs :: "string list"
  files :: "(string \<times> string) list"

fun join_parts :: "string list \<Rightarrow> string" where
  "join_parts [] = []"
| "join_parts [c] = c"
| "join_parts (c # cs) = c @ ''/'' @ join_parts cs"

text \<open>\<open>str(Path(p))\<close>\<close>

definition pure_path :: "string \<Rightarrow> string" where
  "pure_path p =
     (let parts = filter (\<lambda>c. c \<noteq> [] \<and> c \<noteq> ''.'') (split_on CHR ''/'' p)
      in if take 1 p = ''/'' then ''/'' @ join_parts parts
         else if parts = [] then ''.''
         else join_parts parts)"

text \<open>\<open>p.parent\<close>, for a path that \<open>pure_path\<close> has spelled\<close>

definition path_parent :: "string \<Rightarrow> string" where
  "path_parent p =
     (if CHR ''/'' \<notin> set p then ''.''
      else let d = rev (tl (dropWhile (\<lambda>c. c \<noteq> CHR ''/'') (rev p)))
           in if d = [] then ''/'' else d)"

definition basename :: "string \<Rightarrow> string" where
  "basename p = rev (takeWhile (\<lambda>c. c \<noteq> CHR ''/'') (rev p))"

text \<open>\<open>d / name\<close>: an absolute \<open>name\<close> replaces \<open>d\<close>.\<close>

definition joinpath :: "string \<Rightarrow> string \<Rightarrow> string" where
  "joinpath d name =
     pure_path (if take 1 name = ''/'' then name else d @ ''/'' @ name)"

definition is_file :: "string \<Rightarrow> fs \<Rightarrow> bool" where
  "is_file p s \<longleftrightarrow> p \<in> set (map fst (files s))"

definition is_dir :: "string \<Rightarrow> fs \<Rightarrow> bool" where
  "is_dir p s \<longleftrightarrow> p \<in> set (dirs s)"

definition path_exists :: "string \<Rightarrow> fs \<Rightarrow> bool" where
  "path_exists p s \<longleftrightarrow> is_dir p s \<or> is_file p s"

definition embedded_null :: "string \<Rightarrow> bool" where
  "embedded_null p \<longleftrightarrow> CHR 0x00 \<in> set p"

text \<open>The error of a system call on a path that is no entry.\<close>

definition no_entry :: "string \<Rightarrow> fs \<Rightarrow> error" where
  "no_entry p s =
     (if is_file (path_parent p) s then OSError NotADirectory p []
      else if \<not> is_dir (path_parent p) s then OSError FileNotFound p []
      else if 255 < length (basename p) then OSError NameTooLong p []
      else OSError FileNotFound p [])"

text \<open>Why no entry can be created at \<open>p\<close>, if there is a reason.\<close>

definition no_room :: "string \<Rightarrow> fs \<Rightarrow> error option" where
  "no_room p s =
     (if is_dir (path_parent p) s \<and> length (basename p) \<le> 255 then None
      else Some (no_entry p s))"

definition mkdir :: "string \<Rightarrow> fs \<Rightarrow> error + fs" where
  "mkdir p s =
     (if embedded_null p then Inl (ValueError ''embedded null byte'')
      else if path_exists p s then Inl (OSError FileExists p [])
      else case no_room p s of
             Some e \<Rightarrow> Inl e
           | None \<Rightarrow> Inr (s\<lparr>dirs := p # dirs s\<rparr>))"

definition rmdir :: "string \<Rightarrow> fs \<Rightarrow> error + fs" where
  "rmdir p s =
     (if embedded_null p then Inl (ValueError ''embedded null byte'')
      else if is_file p s then Inl (OSError NotADirectory p [])
      else if \<not> is_dir p s then Inl (no_entry p s)
      else if \<exists>q \<in> set (dirs s @ map fst (files s)). path_parent q = p \<and> q \<noteq> p
           then Inl (OSError DirectoryNotEmpty p [])
      else Inr (s\<lparr>dirs := removeAll p (dirs s)\<rparr>))"

text \<open>\<open>p.touch(exist_ok=False)\<close>\<close>

definition touch :: "string \<Rightarrow> fs \<Rightarrow> error + fs" where
  "touch p s =
     (if embedded_null p then Inl (ValueError ''embedded null byte'')
      else if path_exists p s then Inl (OSError FileExists p [])
      else case no_room p s of
             Some e \<Rightarrow> Inl e
           | None \<Rightarrow> Inr (s\<lparr>files := (p, []) # files s\<rparr>))"

definition unlink :: "string \<Rightarrow> fs \<Rightarrow> error + fs" where
  "unlink p s =
     (if embedded_null p then Inl (ValueError ''embedded null byte'')
      else if is_file p s
      then Inr (s\<lparr>files := filter (\<lambda>(q, _). q \<noteq> p) (files s)\<rparr>)
      else if is_dir p s then Inl (OSError IsADirectory p [])
      else Inl (no_entry p s))"

definition read_file :: "string \<Rightarrow> fs \<Rightarrow> error + string" where
  "read_file p s =
     (if embedded_null p then Inl (ValueError ''embedded null byte'')
      else case map_of (files s) p of
             Some text \<Rightarrow> Inr text
           | None \<Rightarrow>
               if is_dir p s then Inl (OSError IsADirectory p [])
               else Inl (no_entry p s))"

definition write_file :: "string \<Rightarrow> string \<Rightarrow> fs \<Rightarrow> error + fs" where
  "write_file p text s =
     (if embedded_null p then Inl (ValueError ''embedded null byte'')
      else if is_dir p s then Inl (OSError IsADirectory p [])
      else if is_file p s
      then Inr (s\<lparr>files := (p, text) # filter (\<lambda>(q, _). q \<noteq> p) (files s)\<rparr>)
      else case no_room p s of
             Some e \<Rightarrow> Inl e
           | None \<Rightarrow> Inr (s\<lparr>files := (p, text) # files s\<rparr>))"

section \<open>Splitting the log\<close>

definition split_pattern :: rx where
  "split_pattern =
     rx_seq [Behind_lit '']'', Lit [newline, newline], Ahead timestamp_rx]"

text \<open>The loop that checks the blocks; \<open>note[0]\<close> on an empty block is out of range.\<close>

fun check_blocks :: "string list \<Rightarrow> error + unit" where
  "check_blocks [] = Inr ()"
| "check_blocks (block # rest) =
     (if block = [] then Inl (IndexError ''string index out of range'')
      else if hd block \<noteq> CHR ''2'' then Inl (ValueError ''note doesnt start with a 2'')
      else if last block \<noteq> CHR '']''
      then Inl (ValueError (''note doesnt end with a '' @ [CHR 0x27] @ '']'' @ [CHR 0x27]))
      else check_blocks rest)"

definition get_notes_from_path :: "string \<Rightarrow> fs \<Rightarrow> error + string list" where
  "get_notes_from_path path s =
     (case read_file path s of
        Inl e \<Rightarrow> Inl e
      | Inr string \<Rightarrow>
          (let notes = regex_split split_pattern string
           in case check_blocks notes of
                Inl e \<Rightarrow> Inl e
              | Inr _ \<Rightarrow> Inr notes))"

section \<open>Filenames\<close>

text \<open>The cleaning steps of the loop body of \<open>add_filenames\<close>; \<open>name[-1]\<close> on an empty
  name is out of range.\<close>

definition clean_name :: "string \<Rightarrow> error + string" where
  "clean_name ttl =
     (let name = strip (lower ttl)
      in if name = [] then Inl (IndexError ''string index out of range'')
         else
           (let name = (if last name \<in> set [CHR ''?'', CHR '','', CHR ''.'']
                        then butlast name else name);
                name = replace_char CHR '' '' CHR ''_'' name;
                name = name @ ''.md'';
                name = fold delete_char
                         [CHR 0x22, CHR '','', CHR ''-'', CHR 0x27, CHR ''?'', CHR ''^''] name
            in Inr name))"

fun add_note :: "error \<Rightarrow> string \<Rightarrow> error" where
  "add_note (OSError k p notes) text = OSError k p (notes @ [text])"
| "add_note e text = e"

text \<open>What \<open>except OSError\<close> catches.\<close>

fun is_os_error :: "error \<Rightarrow> bool" where
  "is_os_error (OSError k p notes) = True"
| "is_os_error e = False"

text \<open>
  The loop of \<open>add_filenames\<close>. An \<open>OSError\<close> of \<open>touch\<close> is caught, given the
  note and raised again; any other exception of \<open>touch\<close> passes the \<open>except\<close>
  clause by. The \<open>finally\<close> clause of the probe runs on every path: it unlinks the
  probe and then stores the name. When it raises, its exception replaces the one that
  was propagating.
\<close>

fun probe_names :: "string \<Rightarrow> note_record list \<Rightarrow> fs \<Rightarrow> (error + note_record list) \<times> fs" where
  "probe_names temp_dir [] s = (Inr [], s)"
| "probe_names temp_dir (n # ns) s =
     (case clean_name (title n) of
        Inl e \<Rightarrow> (Inl e, s)
      | Inr name \<Rightarrow>
          (let temp_outpath = joinpath temp_dir name
           in case touch temp_outpath s of
                Inl e \<Rightarrow>
                  (let e = (if is_os_error e
                            then add_note e (''file name potentially  invalid: '' @ name)
                            else e)
                   in case unlink temp_outpath s of
                        Inl e' \<Rightarrow> (Inl e', s)
                      | Inr s' \<Rightarrow> (Inl e, s'))
              | Inr s1 \<Rightarrow>
                  (case unlink temp_outpath s1 of
                     Inl e' \<Rightarrow> (Inl e', s1)
                   | Inr s2 \<Rightarrow>
                       (case probe_names temp_dir ns s2 of
                          (Inl e, s3) \<Rightarrow> (Inl e, s3)
                        | (Inr ns', s3) \<Rightarrow> (Inr (n\<lparr>filename := Some name\<rparr> # ns'), s3)))))"

definition scratch_dir :: "env \<Rightarrow> string" where
  "scratch_dir ev = joinpath (path_parent (pure_path (ROOT ev))) ''test_valid_names''"

definition add_filenames ::
    "env \<Rightarrow> note_record list \<Rightarrow> fs \<Rightarrow> (error + note_record list) \<times> fs" where
  "add_filenames ev notes s =
     (let temp_dir = scratch_dir ev
      in case mkdir temp_dir s of
           Inl e \<Rightarrow>
             (case rmdir temp_dir s of
                Inl e' \<Rightarrow> (Inl e', s)
              | Inr s' \<Rightarrow> (Inl e, s'))
         | Inr s1 \<Rightarrow>
             (case probe_names temp_dir notes s1 of
                (r, s2) \<Rightarrow>
                  (case rmdir temp_dir s2 of
                     Inl e' \<Rightarrow> (Inl e', s2)
                   | Inr s3 \<Rightarrow> (r, s3))))"

section \<open>Tags\<close>

text \<open>The loop body of \<open>parse_tags\<close>; \<open>tags[1:-1]\<close> drops the first and the last
  character, and \<open>tags_without_brackets[-1]\<close> on an empty string is out of range.\<close>

definition parse_tags_note :: "note_record \<Rightarrow> error + note_record" where
  "parse_tags_note n =
     (let tgs = strip (tags n);
          tags_without_brackets = strip (butlast (tl tgs))
      in if tags_without_brackets = [] then Inl (IndexError ''string index out of range'')
         else
           (let tags_without_brackets =
                  (if last tags_without_brackets = CHR '','' then butlast tags_without_brackets
                   else tags_without_brackets);
                cleaned = map strip (split_on CHR '','' tags_without_brackets)
            in if \<exists>tag \<in> set cleaned. CHR '' '' \<in> set tag
               then Inl (ValueError (''something went wrong when parsing '' @ title n @
                                     '', space detected..''))
               else Inr (n\<lparr>cleaned_tags := Some cleaned\<rparr>)))"

fun parse_tags :: "note_record list \<Rightarrow> error + note_record list" where
  "parse_tags [] = Inr []"
| "parse_tags (n # ns) =
     (case parse_tags_note n of
        Inl e \<Rightarrow> Inl e
      | Inr n' \<Rightarrow>
          (case parse_tags ns of
             Inl e \<Rightarrow> Inl e
           | Inr ns' \<Rightarrow> Inr (n' # ns')))"

section \<open>Assembling and writing the documents\<close>

definition validate_dir :: "string \<Rightarrow> fs \<Rightarrow> error + unit" where
  "validate_dir out_dir_path s =
     (if \<not> path_exists out_dir_path s then Inl (ValueError ''out_dir_path must exist'')
      else if \<not> is_dir out_dir_path s then Inl (ValueError ''out_dir_path must be a directory'')
      else Inr ())"

definition add_title_as_markdown :: "note_record \<Rightarrow> note_record" where
  "add_title_as_markdown n =
     n\<lparr>content := ''# '' @ title_case (title n) @ [newline, newline] @ content n\<rparr>"

definition add_new_line_after_content :: "note_record \<Rightarrow> note_record" where
  "add_new_line_after_content n = n\<lparr>content := content n @ [newline]\<rparr>"

definition add_mres_tag :: "note_record \<Rightarrow> error + note_record" where
  "add_mres_tag n =
     (case cleaned_tags n of
        None \<Rightarrow> Inl (KeyError ''cleaned_tags'')
      | Some ts \<Rightarrow> Inr (n\<lparr>cleaned_tags := Some (ts @ [''mres''])\<rparr>))"

text \<open>\<open>sorted(list(set(tags)))\<close>: Python compares strings character by character.\<close>

definition dropping_duplicates_and_sorting_tags :: "note_record \<Rightarrow> error + note_record" where
  "dropping_duplicates_and_sorting_tags n =
     (case cleaned_tags n of
        None \<Rightarrow> Inl (KeyError ''cleaned_tags'')
      | Some ts \<Rightarrow> Inr (n\<lparr>cleaned_tags := Some (sorted_list_of_set (set ts))\<rparr>))"

text \<open>The loop body of \<open>form_posts\<close>, for the note at position \<open>i\<close>.\<close>

definition form_post :: "env \<Rightarrow> string \<Rightarrow> nat \<Rightarrow> note_record \<Rightarrow> error + (post \<times> string)" where
  "form_post ev out_dir_path i n =
     (case add_mres_tag n of
        Inl e \<Rightarrow> Inl e
      | Inr n1 \<Rightarrow>
          (case dropping_duplicates_and_sorting_tags n1 of
             Inl e \<Rightarrow> Inl e
           | Inr n2 \<Rightarrow>
               (let n3 = add_title_as_markdown n2;
                    n4 = add_new_line_after_content n3
                in case cleaned_tags n4 of
                     None \<Rightarrow> Inl (KeyError ''cleaned_tags'')
                   | Some ts \<Rightarrow>
                       (let pst = \<lparr>post_content = content n4, post_tags = ts,
                                   cdt = datetime n4, mdt = now_isoformat ev i\<rparr>
                        in case filename n4 of
                             None \<Rightarrow> Inl (KeyError ''filename'')
                           | Some name \<Rightarrow> Inr (pst, joinpath out_dir_path name)))))"

fun form_posts_from ::
    "env \<Rightarrow> string \<Rightarrow> nat \<Rightarrow> note_record list \<Rightarrow> error + (post \<times> string) list" where
  "form_posts_from ev out_dir_path i [] = Inr []"
| "form_posts_from ev out_dir_path i (n # ns) =
     (case form_post ev out_dir_path i n of
        Inl e \<Rightarrow> Inl e
      | Inr p \<Rightarrow>
          (case form_posts_from ev out_dir_path (Suc i) ns of
             Inl e \<Rightarrow> Inl e
           | Inr ps \<Rightarrow> Inr (p # ps)))"

definition form_posts :: "env \<Rightarrow> note_record list \<Rightarrow> string \<Rightarrow> error + (post \<times> string) list" where
  "form_posts ev notes out_dir_path = form_posts_from ev out_dir_path 0 notes"

fun write_notes ::
    "env \<Rightarrow> (post \<times> string) list \<Rightarrow> bool \<Rightarrow> fs \<Rightarrow> (error + string list) \<times> fs" where
  "write_notes ev [] overwrite_ok s = (Inr [], s)"
| "write_notes ev ((pst, path) # posts) overwrite_ok s =
     (if path_exists path s \<and> \<not> overwrite_ok
      then (Inl (RuntimeError (path @ '' already exists. To overwrite set `overwite_ok` to True'')), s)
      else case write_file path (dumps ev pst) s of
             Inl e \<Rightarrow> (Inl e, s)
           | Inr s1 \<Rightarrow>
               (case write_notes ev posts overwrite_ok s1 of
                  (Inl e, s2) \<Rightarrow> (Inl e, s2)
                | (Inr written_files, s2) \<Rightarrow> (Inr (path # written_files), s2)))"

definition output_notes ::
    "env \<Rightarrow> note_record list \<Rightarrow> string \<Rightarrow> bool \<Rightarrow> fs \<Rightarrow> (error + string list) \<times> fs" where
  "output_notes ev notes out_dir_path overwrite_ok s =
     (case form_posts ev notes out_dir_path of
        Inl e \<Rightarrow> (Inl e, s)
      | Inr posts \<Rightarrow> write_notes ev posts overwrite_ok s)"

section \<open>The entry operation\<close>

definition flat_note_to_atoms ::
    "env \<Rightarrow> string \<Rightarrow> string \<Rightarrow> bool \<Rightarrow> fs \<Rightarrow> (error + string list) \<times> fs" where
  "flat_note_to_atoms ev in_path out_dir overwrite_ok s =
     (case get_notes_from_path in_path s of
        Inl e \<Rightarrow> (Inl e, s)
      | Inr notes \<Rightarrow>
          (case decompose_notes notes of
             Inl e \<Rightarrow> (Inl e, s)
           | Inr decomp_notes \<Rightarrow>
               (case validate_datetimes ev decomp_notes of
                  Inl e \<Rightarrow> (Inl e, s)
                | Inr notes1 \<Rightarrow>
                    (case add_filenames ev notes1 s of
                       (Inl e, s1) \<Rightarrow> (Inl e, s1)
                     | (Inr notes2, s1) \<Rightarrow>
                         (case parse_tags notes2 of
                            Inl e \<Rightarrow> (Inl e, s1)
                          | Inr notes3 \<Rightarrow>
                              output_notes ev notes3 out_dir overwrite_ok s1)))))"

section \<open>The filename as the specification words it\<close>

text \<open>
  The steps of the specification, in its order: lower-case, trim the surrounding
  whitespace, strip one trailing \<open>?\<close>, \<open>,\<close> or \<open>.\<close> if present, replace spaces with
  underscores, append the extension, remove the disallowed characters.
\<close>

definition spec_filename :: "string \<Rightarrow> string" where
  "spec_filename ttl =
     (let lowered = lower ttl;
          trimmed = strip lowered;
          unpunctuated =
            (if trimmed \<noteq> [] \<and> last trimmed \<in> set ''?,.'' then butlast trimmed else trimmed);
          underscored = replace_char CHR '' '' CHR ''_'' unpunctuated;
          with_extension = underscored @ ''.md''
      in filter (\<lambda>c. c \<notin> set [CHR 0x22, CHR '','', CHR ''-'', CHR 0x27, CHR ''?'', CHR ''^''])
           with_extension)"

text \<open>The characters that the cleaning steps leave alone.\<close>

definition clean_char :: "char \<Rightarrow> bool" where
  "clean_char c \<longleftrightarrow>
     lower_char c = c \<and> c \<noteq> CHR '' ''
     \<and> c \<notin> set [CHR 0x22, CHR '','', CHR ''-'', CHR 0x27, CHR ''?'', CHR ''^'']"

section \<open>Example data\<close>

definition example_note :: string where
  "example_note =
     ''2024-01-01 10:00:00 - Buy milk. Need milk for coffee tags: [errand, home,]''"

definition example_env :: env where
  "example_env =
     \<lparr>ROOT = ''/repo/src'',
      parse_isoformat =
        (\<lambda>s. if take 2 (drop 5 s) = ''13'' then None
             else Some (replace_char CHR '' '' CHR ''T'' s)),
      pformat =
        (\<lambda>ds. concat (map (\<lambda>d. concat (map (\<lambda>(k, v). k @ ''='' @ v @ '';'') d)) ds)),
      now_isoformat = (\<lambda>i. ''2024-06-01T00:00:0'' @ str_nat i),
      dumps = (\<lambda>p. post_content p)\<rparr>"

definition example_fs :: fs where
  "example_fs =
     \<lparr>dirs = [''/'', ''/repo'', ''/out''],
      files = [(''/log.md'', example_note)]\<rparr>"


section \<open>The worked example\<close>

text \<open>
  C1. The note \<open>2024-01-01 10:00:00 - Buy milk. Need milk for coffee tags: [errand, home,]\<close>
  is decomposed into the title \<open>Buy milk\<close>, the content \<open>Need milk for coffee\<close> and the
  raw tags \<open>[errand, home,]\<close>; the filename derived from the title is \<open>buy_milk.md\<close>; the
  tags are parsed to \<open>errand\<close>, \<open>home\<close>, and the post carries the tags \<open>errand\<close>,
  \<open>home\<close>, \<open>mres\<close>.
\<close>

theorem example_note_decomposed:
  "extract_note_fields
     ''2024-01-01 10:00:00 - Buy milk. Need milk for coffee tags: [errand, home,]'' =
   Some \<lparr>datetime = ''2024-01-01 10:00:00'', title = ''Buy milk'',
         content = ''Need milk for coffee'', tags = ''[errand, home,]'',
         filename = None, cleaned_tags = None\<rparr>
   \<and> add_filenames example_env
       [\<lparr>datetime = ''2024-01-01T10:00:00'', title = ''Buy milk'',
         content = ''Need milk for coffee'', tags = ''[errand, home,]'',
         filename = None, cleaned_tags = None\<rparr>] example_fs =
     (Inr [\<lparr>datetime = ''2024-01-01T10:00:00'', title = ''Buy milk'',
            content = ''Need milk for coffee'', tags = ''[errand, home,]'',
            filename = Some ''buy_milk.md'', cleaned_tags = None\<rparr>], example_fs)
   \<and> parse_tags
       [\<lparr>datetime = ''2024-01-01T10:00:00'', title = ''Buy milk'',
         content = ''Need milk for coffee'', tags = ''[errand, home,]'',
         filename = Some ''buy_milk.md'', cleaned_tags = None\<rparr>] =
     Inr [\<lparr>datetime = ''2024-01-01T10:00:00'', title = ''Buy milk'',
           content = ''Need milk for coffee'', tags = ''[errand, home,]'',
           filename = Some ''buy_milk.md'', cleaned_tags = Some [''errand'', ''home'']\<rparr>]
   \<and> form_posts example_env
       [\<lparr>datetime = ''2024-01-01T10:00:00'', title = ''Buy milk'',
         content = ''Need milk for coffee'', tags = ''[errand, home,]'',
         filename = Some ''buy_milk.md'', cleaned_tags = Some [''errand'', ''home'']\<rparr>]
       ''/out'' =
     Inr [(\<lparr>post_content =
              ''# Buy Milk'' @ [newline, newline] @ ''Need milk for coffee'' @ [newline],
            post_tags = [''errand'', ''home'', ''mres''],
            cdt = ''2024-01-01T10:00:00'', mdt = ''2024-06-01T00:00:00''\<rparr>,
           ''/out/buy_milk.md'')]
   \<and> flat_note_to_atoms example_env ''/log.md'' ''/out'' False example_fs =
     (Inr [''/out/buy_milk.md''],
      example_fs\<lparr>files :=
        (''/out/buy_milk.md'',
         ''# Buy Milk'' @ [newline, newline] @ ''Need milk for coffee'' @ [newline])
        # files example_fs\<rparr>)"
  by code_simp

section \<open>Blocks without a match\<close>

lemma no_match_indexes_empty:
  "filter (\<lambda>(idx, n). n = None) (enumerate k xs) = [] \<longleftrightarrow> None \<notin> set xs"
  by (induction xs arbitrary: k) auto

lemma check_notes_without_matches_iff:
  "check_notes_without_matches blocks ds = Inr () \<longleftrightarrow> None \<notin> set ds"
  by (simp add: check_notes_without_matches_def Let_def no_match_indexes_empty)

text \<open>Whichever blocks fail, and however many, the batch ends in the same
  \<open>TypeError\<close>.\<close>

lemma decompose_notes_unmatched:
  assumes "\<exists>b \<in> set blocks. extract_note_fields b = None"
  shows "decompose_notes blocks =
           Inl (TypeError ([CHR 0x27] @ ''type'' @ [CHR 0x27] @
                 '' object does not support the context manager protocol''))"
proof -
  from assms have "None \<in> set (map extract_note_fields blocks)" by force
  then have "filter (\<lambda>(idx, n). n = None)
               (enumerate 0 (map extract_note_fields blocks)) \<noteq> []"
    by (simp only: no_match_indexes_empty not_not)
  then show ?thesis
    by (simp add: decompose_notes_def check_notes_without_matches_def Let_def)
qed

lemma decompose_notes_all_matched:
  assumes "decompose_notes blocks = Inr ds"
  shows "None \<notin> set ds"
proof -
  from assms have "\<exists>u. check_notes_without_matches blocks ds = Inr u"
    by (auto simp: decompose_notes_def Let_def split: sum.splits if_splits)
  then have "check_notes_without_matches blocks ds = Inr ()" by simp
  then show ?thesis by (simp add: check_notes_without_matches_iff)
qed

text \<open>
  C2. A batch with a block that does not match ends in an error, but the error is the
  \<open>TypeError\<close> of the \<open>with\<close> statement: it is the same for a batch of one failing
  block and for a batch whose second and third blocks fail, and holds neither the count,
  nor the indexes, nor the texts of the failing blocks.
\<close>

theorem unmatched_blocks_not_reported:
  "decompose_notes [''no timestamp here''] =
     Inl (TypeError ([CHR 0x27] @ ''type'' @ [CHR 0x27] @
            '' object does not support the context manager protocol''))
   \<and> decompose_notes
       [''2024-01-01 10:00:00 - Buy milk. Need milk for coffee tags: [errand, home,]'',
        ''first bad block'', ''second bad block''] =
     Inl (TypeError ([CHR 0x27] @ ''type'' @ [CHR 0x27] @
            '' object does not support the context manager protocol''))"
  by code_simp

section \<open>Timestamps that do not parse\<close>

lemma normalise_datetimes_matched:
  "normalise_datetimes ev (map Some ns) =
     Inr (map (\<lambda>n. case parse_isoformat ev (datetime n) of
                     Some new_dt \<Rightarrow> n\<lparr>datetime := new_dt\<rparr>
                   | None \<Rightarrow> n) ns,
          filter (\<lambda>n. parse_isoformat ev (datetime n) = None) ns)"
  by (induction ns) (auto simp: Let_def split: option.splits)

lemma validate_datetimes_fails:
  assumes "\<exists>n \<in> set ns. parse_isoformat ev (datetime n) = None"
  shows "validate_datetimes ev (map Some ns) =
           Inl (ValueError
                  (err_str ev (filter (\<lambda>n. parse_isoformat ev (datetime n) = None) ns)))"
proof -
  from assms have "filter (\<lambda>n. parse_isoformat ev (datetime n) = None) ns \<noteq> []"
    by (simp add: filter_empty_conv)
  then show ?thesis
    by (simp add: validate_datetimes_def normalise_datetimes_matched)
qed

text \<open>
  C3. When the blocks of the log are decomposed into the notes \<open>ns\<close> and the timestamp
  of at least one of them does not parse, \<open>validate_datetimes\<close> raises one
  \<open>ValueError\<close> whose message gives the number of failing notes and, for each of them,
  its raw timestamp and its title; the entry operation ends in that error and leaves the
  file system as it found it.
\<close>

theorem unparseable_timestamp_is_fatal:
  assumes "get_notes_from_path in_path s = Inr blocks"
      and "decompose_notes blocks = Inr (map Some ns)"
      and "\<exists>n \<in> set ns. parse_isoformat ev (datetime n) = None"
  shows "validate_datetimes ev (map Some ns) =
           Inl (ValueError
             (''Some note datetimes were unable to be parsed. '' @
              str_nat (length (filter (\<lambda>n. parse_isoformat ev (datetime n) = None) ns)) @
              '' were not parsed. They are as follows:'' @ [newline, newline] @
              pformat ev (map (\<lambda>n. [(''datetime'', datetime n), (''title'', title n)])
                           (filter (\<lambda>n. parse_isoformat ev (datetime n) = None) ns))))
       \<and> (\<exists>e. validate_datetimes ev (map Some ns) = Inl e
              \<and> flat_note_to_atoms ev in_path out_dir overwrite_ok s = (Inl e, s))"
proof -
  have v: "validate_datetimes ev (map Some ns) =
             Inl (ValueError
                    (err_str ev (filter (\<lambda>n. parse_isoformat ev (datetime n) = None) ns)))"
    using assms(3) by (rule validate_datetimes_fails)
  have "flat_note_to_atoms ev in_path out_dir overwrite_ok s =
          (Inl (ValueError
                  (err_str ev (filter (\<lambda>n. parse_isoformat ev (datetime n) = None) ns))), s)"
    by (simp add: flat_note_to_atoms_def assms(1) assms(2) v)
  with v show ?thesis by (simp add: err_str_def date_titles_def)
qed

theorem unparseable_timestamp_is_fatal_witness:
  "get_notes_from_path ''/log.md''
       \<lparr>dirs = [''/''],
        files = [(''/log.md'', ''2024-13-01 10:00:00 - Buy milk. Need milk for coffee tags: [home]'')]\<rparr>
     = Inr [''2024-13-01 10:00:00 - Buy milk. Need milk for coffee tags: [home]'']
   \<and> decompose_notes [''2024-13-01 10:00:00 - Buy milk. Need milk for coffee tags: [home]'']
     = Inr (map Some [\<lparr>datetime = ''2024-13-01 10:00:00'', title = ''Buy milk'',
                       content = ''Need milk for coffee'', tags = ''[home]'',
                       filename = None, cleaned_tags = None\<rparr>])
   \<and> (\<exists>n \<in> set [\<lparr>datetime = ''2024-13-01 10:00:00'', title = ''Buy milk'',
                    content = ''Need milk for coffee'', tags = ''[home]'',
                    filename = None, cleaned_tags = None\<rparr>].
         parse_isoformat example_env (datetime n) = None)
   \<and> flat_note_to_atoms example_env ''/log.md'' ''/out'' False
       \<lparr>dirs = [''/''],
        files = [(''/log.md'', ''2024-13-01 10:00:00 - Buy milk. Need milk for coffee tags: [home]'')]\<rparr>
     = (Inl (ValueError
          (''Some note datetimes were unable to be parsed. 1 were not parsed. They are as follows:''
           @ [newline, newline] @ ''datetime=2024-13-01 10:00:00;title=Buy milk;'')),
        \<lparr>dirs = [''/''],
         files = [(''/log.md'', ''2024-13-01 10:00:00 - Buy milk. Need milk for coffee tags: [home]'')]\<rparr>)"
proof -
  let ?s = "\<lparr>dirs = [''/''],
        files = [(''/log.md'', ''2024-13-01 10:00:00 - Buy milk. Need milk for coffee tags: [home]'')]\<rparr>"
  let ?n = "\<lparr>datetime = ''2024-13-01 10:00:00'', title = ''Buy milk'',
                       content = ''Need milk for coffee'', tags = ''[home]'',
                       filename = None, cleaned_tags = None\<rparr>"
  have a: "get_notes_from_path ''/log.md'' ?s
     = Inr [''2024-13-01 10:00:00 - Buy milk. Need milk for coffee tags: [home]'']"
    by code_simp
  have b: "decompose_notes [''2024-13-01 10:00:00 - Buy milk. Need milk for coffee tags: [home]'']
     = Inr (map Some [?n])"
    by code_simp
  have c: "\<exists>n \<in> set [?n]. parse_isoformat example_env (datetime n) = None"
    by code_simp
  have d: "(''Some note datetimes were unable to be parsed. '' @
              str_nat (length (filter (\<lambda>n. parse_isoformat example_env (datetime n) = None) [?n])) @
              '' were not parsed. They are as follows:'' @ [newline, newline] @
              pformat example_env (map (\<lambda>n. [(''datetime'', datetime n), (''title'', title n)])
                           (filter (\<lambda>n. parse_isoformat example_env (datetime n) = None) [?n])))
       = ''Some note datetimes were unable to be parsed. 1 were not parsed. They are as follows:''
           @ [newline, newline] @ ''datetime=2024-13-01 10:00:00;title=Buy milk;''"
    by code_simp
  from unparseable_timestamp_is_fatal [OF a b c, of "''/out''" False]
  have "flat_note_to_atoms example_env ''/log.md'' ''/out'' False ?s
     = (Inl (ValueError
          (''Some note datetimes were unable to be parsed. 1 were not parsed. They are as follows:''
           @ [newline, newline] @ ''datetime=2024-13-01 10:00:00;title=Buy milk;'')), ?s)"
    unfolding d by auto
  with a b c show ?thesis by blast
qed

section \<open>The tags of a post\<close>

lemma form_post_tags:
  assumes "form_post ev out_dir_path i n = Inr (pst, path)"
  shows "\<exists>ts. cleaned_tags n = Some ts \<and> post_tags pst = sorted_list_of_set (set (ts @ [''mres'']))"
  using assms
  by (auto simp: form_post_def add_mres_tag_def dropping_duplicates_and_sorting_tags_def
      add_title_as_markdown_def add_new_line_after_content_def Let_def
      split: option.splits sum.splits)

lemma form_post_total:
  assumes "cleaned_tags n \<noteq> None" "filename n \<noteq> None"
  shows "\<exists>p. form_post ev out_dir_path i n = Inr p"
  using assms
  by (auto simp: form_post_def add_mres_tag_def dropping_duplicates_and_sorting_tags_def
      add_title_as_markdown_def add_new_line_after_content_def Let_def
      split: option.splits sum.splits)

lemma count_list_distinct:
  "distinct xs \<Longrightarrow> x \<in> set xs \<Longrightarrow> count_list xs x = 1"
  by (induction xs) auto

lemma sorted_list_of_set_once:
  fixes A :: "string set"
  assumes "finite A" "x \<in> A"
  shows "sorted (sorted_list_of_set A) \<and> distinct (sorted_list_of_set A)
     \<and> count_list (sorted_list_of_set A) x = 1"
proof -
  have d: "distinct (sorted_list_of_set A)" by simp
  from assms have m: "x \<in> set (sorted_list_of_set A)" by simp
  from d m have "count_list (sorted_list_of_set A) x = 1"
    by (rule count_list_distinct)
  with d show ?thesis by simp
qed

lemma normalised_tags:
  fixes ts :: "string list"
  shows "sorted (sorted_list_of_set (set (ts @ [''mres''])))
     \<and> distinct (sorted_list_of_set (set (ts @ [''mres''])))
     \<and> count_list (sorted_list_of_set (set (ts @ [''mres'']))) ''mres'' = 1"
  by (rule sorted_list_of_set_once) simp_all

lemma form_posts_from_tags:
  assumes "\<forall>n \<in> set ns. cleaned_tags n \<noteq> None \<and> filename n \<noteq> None"
  shows "\<exists>posts. form_posts_from ev out_dir_path i ns = Inr posts
           \<and> length posts = length ns
           \<and> (\<forall>(pst, path) \<in> set posts.
                 sorted (post_tags pst) \<and> distinct (post_tags pst)
                 \<and> count_list (post_tags pst) ''mres'' = 1)"
  using assms
proof (induction ns arbitrary: i)
  case Nil
  then show ?case by simp
next
  case (Cons n ns)
  from Cons.prems obtain p where p: "form_post ev out_dir_path i n = Inr p"
    using form_post_total [of n ev out_dir_path i] by auto
  obtain pst path where pp: "p = (pst, path)" by (cases p)
  from p pp form_post_tags obtain ts
    where ts: "post_tags pst = sorted_list_of_set (set (ts @ [''mres'']))" by blast
  from Cons.IH [of "Suc i"] Cons.prems obtain ps
    where ps: "form_posts_from ev out_dir_path (Suc i) ns = Inr ps"
      "length ps = length ns"
      "\<forall>(pst, path) \<in> set ps. sorted (post_tags pst) \<and> distinct (post_tags pst)
                 \<and> count_list (post_tags pst) ''mres'' = 1"
    by auto
  have "sorted (post_tags pst) \<and> distinct (post_tags pst)
                 \<and> count_list (post_tags pst) ''mres'' = 1"
    unfolding ts by (rule normalised_tags)
  with p pp ps show ?case by auto
qed

text \<open>The notes that \<open>add_filenames\<close> and \<open>parse_tags\<close> hand on carry both
  keys.\<close>

lemma add_filenames_sets_filename:
  assumes "probe_names d ns s = (Inr ns', s')"
  shows "\<forall>n \<in> set ns'. filename n \<noteq> None"
  using assms
  by (induction ns arbitrary: s ns' s')
     (auto simp: Let_def split: sum.splits prod.splits)

lemma parse_tags_sets_tags:
  assumes "parse_tags ns = Inr ns'" "\<forall>n \<in> set ns. filename n \<noteq> None"
  shows "\<forall>n \<in> set ns'. cleaned_tags n \<noteq> None \<and> filename n \<noteq> None"
  using assms
  by (induction ns arbitrary: ns')
     (auto simp: parse_tags_note_def Let_def split: sum.splits if_splits)

lemma notes_reach_form_posts:
  assumes "add_filenames ev ns s = (Inr ns1, s1)" "parse_tags ns1 = Inr ns2"
  shows "\<forall>n \<in> set ns2. cleaned_tags n \<noteq> None \<and> filename n \<noteq> None"
proof -
  from assms(1) obtain s0 s2 where "probe_names (scratch_dir ev) ns s0 = (Inr ns1, s2)"
    by (auto simp: add_filenames_def Let_def split: sum.splits prod.splits)
  then have "\<forall>n \<in> set ns1. filename n \<noteq> None" by (rule add_filenames_sets_filename)
  with assms(2) show ?thesis by (rule parse_tags_sets_tags)
qed

text \<open>
  C7. For notes that carry their parsed tags and their filename, as the notes that reach
  \<open>form_posts\<close> do, \<open>form_posts\<close> builds one post for each note, and the tag list of
  every post is sorted, has no duplicates and holds \<open>mres\<close> exactly once, whatever
  the order and the duplicates of the parsed tags.
\<close>

theorem form_posts_tags_normalised:
  assumes "\<forall>n \<in> set ns. cleaned_tags n \<noteq> None \<and> filename n \<noteq> None"
  shows "\<exists>posts. form_posts ev ns out_dir_path = Inr posts
           \<and> length posts = length ns
           \<and> (\<forall>(pst, path) \<in> set posts.
                 sorted (post_tags pst) \<and> distinct (post_tags pst)
                 \<and> count_list (post_tags pst) ''mres'' = 1)"
  unfolding form_posts_def using assms by (rule form_posts_from_tags)

theorem form_posts_tags_normalised_witness:
  "cleaned_tags \<lparr>datetime = ''2024-01-01T10:00:00'', title = ''Buy milk'',
                  content = ''Need milk for coffee'', tags = ''[mres, home, errand, home]'',
                  filename = Some ''buy_milk.md'',
                  cleaned_tags = Some [''mres'', ''home'', ''errand'', ''home'']\<rparr> \<noteq> None
   \<and> filename \<lparr>datetime = ''2024-01-01T10:00:00'', title = ''Buy milk'',
                content = ''Need milk for coffee'', tags = ''[mres, home, errand, home]'',
                filename = Some ''buy_milk.md'',
                cleaned_tags = Some [''mres'', ''home'', ''errand'', ''home'']\<rparr> \<noteq> None
   \<and> (\<exists>posts.
         form_posts example_env
           [\<lparr>datetime = ''2024-01-01T10:00:00'', title = ''Buy milk'',
             content = ''Need milk for coffee'', tags = ''[mres, home, errand, home]'',
             filename = Some ''buy_milk.md'',
             cleaned_tags = Some [''mres'', ''home'', ''errand'', ''home'']\<rparr>] ''/out''
           = Inr posts
         \<and> length posts = 1
         \<and> (\<forall>(pst, path) \<in> set posts.
               sorted (post_tags pst) \<and> distinct (post_tags pst)
               \<and> count_list (post_tags pst) ''mres'' = 1))"
proof -
  let ?n = "\<lparr>datetime = ''2024-01-01T10:00:00'', title = ''Buy milk'',
             content = ''Need milk for coffee'', tags = ''[mres, home, errand, home]'',
             filename = Some ''buy_milk.md'',
             cleaned_tags = Some [''mres'', ''home'', ''errand'', ''home'']\<rparr>"
  have h: "\<forall>n \<in> set [?n]. cleaned_tags n \<noteq> None \<and> filename n \<noteq> None"
    by simp
  have c: "cleaned_tags ?n \<noteq> None" and f: "filename ?n \<noteq> None"
    by simp_all
  from form_posts_tags_normalised [OF h, of example_env "''/out''"]
  have "\<exists>posts. form_posts example_env [?n] ''/out'' = Inr posts
         \<and> length posts = 1
         \<and> (\<forall>(pst, path) \<in> set posts.
               sorted (post_tags pst) \<and> distinct (post_tags pst)
               \<and> count_list (post_tags pst) ''mres'' = 1)"
    by simp
  with c f show ?thesis by blast
qed

section \<open>An empty tag list\<close>

lemma parse_tags_note_empty:
  assumes "strip (butlast (tl (strip (tags n)))) = []"
  shows "parse_tags_note n = Inl (IndexError ''string index out of range'')"
  using assms by (simp add: parse_tags_note_def)

lemma parse_tags_reaches:
  assumes "parse_tags pre = Inr pre'" "parse_tags_note n = Inl e"
  shows "parse_tags (pre @ n # post) = Inl e"
  using assms
  by (induction pre arbitrary: pre') (auto split: sum.splits)

lemma parse_tags_fails:
  assumes "n \<in> set ns" "parse_tags_note n = Inl e"
  shows "\<exists>e'. parse_tags ns = Inl e'"
  using assms
  by (induction ns) (auto split: sum.splits)

text \<open>The entry operation has no handler for the errors of \<open>parse_tags\<close>.\<close>

lemma parse_tags_error_propagates:
  assumes "get_notes_from_path in_path s = Inr blocks"
      and "decompose_notes blocks = Inr ds"
      and "validate_datetimes ev ds = Inr ns"
      and "add_filenames ev ns s = (Inr ns1, s1)"
      and "parse_tags ns1 = Inl e"
  shows "flat_note_to_atoms ev in_path out_dir overwrite_ok s = (Inl e, s1)"
  using assms by (simp add: flat_note_to_atoms_def)

text \<open>
  C10. For a note whose raw tag string has nothing between its first and last character
  once the whitespace is trimmed (\<open>[]\<close>, \<open>[ ]\<close>), the loop body of \<open>parse_tags\<close>
  raises \<open>IndexError\<close>; \<open>parse_tags\<close> raises it when the notes before this one are
  parsed, and no batch that holds the note is parsed without an error.
\<close>

theorem parse_tags_empty_list_raises:
  assumes "strip (butlast (tl (strip (tags n)))) = []"
      and "parse_tags pre = Inr pre'"
  shows "parse_tags_note n = Inl (IndexError ''string index out of range'')
       \<and> parse_tags (pre @ n # post) = Inl (IndexError ''string index out of range'')
       \<and> (\<forall>ns. n \<in> set ns \<longrightarrow> (\<exists>e. parse_tags ns = Inl e))"
proof -
  have e: "parse_tags_note n = Inl (IndexError ''string index out of range'')"
    using assms(1) by (rule parse_tags_note_empty)
  have "parse_tags (pre @ n # post) = Inl (IndexError ''string index out of range'')"
    using assms(2) e by (rule parse_tags_reaches)
  moreover have "\<forall>ns. n \<in> set ns \<longrightarrow> (\<exists>e. parse_tags ns = Inl e)"
    using e parse_tags_fails by blast
  ultimately show ?thesis using e by simp
qed

theorem parse_tags_empty_list_raises_witness:
  "strip (butlast (tl (strip (tags
       \<lparr>datetime = ''2024-01-02T10:00:00'', title = ''Call'', content = ''Ring back'',
        tags = ''[ ]'', filename = Some ''call.md'', cleaned_tags = None\<rparr>)))) = []
   \<and> parse_tags
       [\<lparr>datetime = ''2024-01-01T10:00:00'', title = ''Buy milk'',
         content = ''Need milk for coffee'', tags = ''[errand, home,]'',
         filename = Some ''buy_milk.md'', cleaned_tags = None\<rparr>] =
     Inr [\<lparr>datetime = ''2024-01-01T10:00:00'', title = ''Buy milk'',
           content = ''Need milk for coffee'', tags = ''[errand, home,]'',
           filename = Some ''buy_milk.md'', cleaned_tags = Some [''errand'', ''home'']\<rparr>]
   \<and> parse_tags
       ([\<lparr>datetime = ''2024-01-01T10:00:00'', title = ''Buy milk'',
          content = ''Need milk for coffee'', tags = ''[errand, home,]'',
          filename = Some ''buy_milk.md'', cleaned_tags = None\<rparr>]
        @ \<lparr>datetime = ''2024-01-02T10:00:00'', title = ''Call'', content = ''Ring back'',
           tags = ''[ ]'', filename = Some ''call.md'', cleaned_tags = None\<rparr> # []) =
     Inl (IndexError ''string index out of range'')
   \<and> \<lparr>datetime = ''2024-01-02T10:00:00'', title = ''Call'', content = ''Ring back'',
        tags = ''[ ]'', filename = Some ''call.md'', cleaned_tags = None\<rparr>
       \<in> set [\<lparr>datetime = ''2024-01-02T10:00:00'', title = ''Call'', content = ''Ring back'',
                tags = ''[ ]'', filename = Some ''call.md'', cleaned_tags = None\<rparr>]
   \<and> (\<exists>e. parse_tags
             [\<lparr>datetime = ''2024-01-02T10:00:00'', title = ''Call'', content = ''Ring back'',
               tags = ''[ ]'', filename = Some ''call.md'', cleaned_tags = None\<rparr>] = Inl e)"
proof -
  let ?n = "\<lparr>datetime = ''2024-01-02T10:00:00'', title = ''Call'', content = ''Ring back'',
        tags = ''[ ]'', filename = Some ''call.md'', cleaned_tags = None\<rparr>"
  let ?g = "\<lparr>datetime = ''2024-01-01T10:00:00'', title = ''Buy milk'',
         content = ''Need milk for coffee'', tags = ''[errand, home,]'',
         filename = Some ''buy_milk.md'', cleaned_tags = None\<rparr>"
  have a: "strip (butlast (tl (strip (tags ?n)))) = []"
    by code_simp
  have b: "parse_tags [?g] = Inr [?g\<lparr>cleaned_tags := Some [''errand'', ''home'']\<rparr>]"
    by code_simp
  have m: "?n \<in> set [?n]" by simp
  from parse_tags_empty_list_raises [OF a b, of "[]"]
  have "parse_tags ([?g] @ ?n # []) = Inl (IndexError ''string index out of range'')"
    and "\<exists>e. parse_tags [?n] = Inl e"
    using m by blast+
  with a b m show ?thesis by simp
qed

section \<open>The output directory\<close>

text \<open>
  C4. The entry operation never calls \<open>validate_dir\<close>. With the one-note log of the
  example and an output directory \<open>/nowhere\<close> that does not exist, the note is split,
  decomposed, validated and named, and only the write of \<open>/nowhere/buy_milk.md\<close> fails,
  with the error of the file system; \<open>validate_dir\<close> would have rejected the directory.
\<close>

theorem output_directory_not_checked_first:
  "flat_note_to_atoms example_env ''/log.md'' ''/nowhere'' False example_fs =
     (Inl (OSError FileNotFound ''/nowhere/buy_milk.md'' []), example_fs)
   \<and> validate_dir ''/nowhere'' example_fs = Inl (ValueError ''out_dir_path must exist'')
   \<and> flat_note_to_atoms example_env ''/log.md'' ''/nowhere'' False
       \<lparr>dirs = [''/''], files = [(''/log.md'', ''not a log'')]\<rparr> =
     (Inl (ValueError ''note doesnt start with a 2''),
      \<lparr>dirs = [''/''], files = [(''/log.md'', ''not a log'')]\<rparr>)"
  by code_simp

section \<open>A title that ends in a question mark\<close>

text \<open>Every state of the matcher has the text of the block: what it has consumed,
  followed by what it has still to read.\<close>

lemma dot_runs_text:
  "(b', s', c') \<in> set (dot_runs b s c) \<Longrightarrow> rev b' @ s' = rev b @ s"
  by (induction b s c rule: dot_runs.induct) (auto split: if_splits)

lemma rx_match_text:
  "(b', s', c') \<in> set (rx_match r (b, s, c)) \<Longrightarrow> rev b' @ s' = rev b @ s"
proof (induction r "(b, s, c)" arbitrary: b s c b' s' c' rule: rx_match.induct)
  case (1 l b s c)
  then show ?case by (auto split: if_splits) (metis append_take_drop_id)
next
  case (2 n b s c)
  then show ?case by (auto split: if_splits)
next
  case (3 b s c)
  then show ?case by (auto dest: dot_runs_text)
next
  case (4 b s c)
  then show ?case by (auto dest: dot_runs_text)
next
  case (5 n r b s c)
  then show ?case by auto
next
  case (6 r1 r2 st)
  then show ?case by (auto; metis prod_cases3)
next
  case (7 r1 r2 st)
  then show ?case by auto
next
  case (8 r b s c)
  then show ?case by (auto split: list.splits)
next
  case (9 l b s c)
  then show ?case by (auto split: if_splits)
next
  case (10 n b s c)
  then show ?case by (auto split: option.splits if_splits)
next
  case (11 b s c)
  then show ?case by (auto split: if_splits)
qed


text \<open>A block without a dot followed by a space has no match, whatever ends its
  title.\<close>

lemma rx_match_Cat_empty:
  assumes "\<And>b' s' c'. (b', s', c') \<in> set (rx_match r1 st) \<Longrightarrow> rx_match r2 (b', s', c') = []"
  shows "rx_match (Cat r1 r2) st = []"
  using assms by (auto simp: concat_eq_Nil_conv)

lemma rx_match_Cat_empty1:
  assumes "rx_match r1 st = []"
  shows "rx_match (Cat r1 r2) st = []"
  using assms by simp

lemma no_dot_space_no_match:
  assumes "\<forall>i. take 2 (drop i s) \<noteq> ''. ''"
  shows "extract_note_fields s = None"
proof -
  have lit: "rx_match (Lit ''. '') (b, s', c) = []" if "rev b @ s' = s" for b s' c
  proof -
    from that have "s' = drop (length b) s"
      by (metis append_eq_conv_conj length_rev)
    moreover from assms have "take 2 (drop (length b) s) \<noteq> ''. ''" by blast
    ultimately show ?thesis by (simp add: numeral_2_eq_2)
  qed
  have "rx_match regexp ([], s, Map.empty) = []"
    unfolding regexp_def regexps_def rx_seq.simps
  proof (rule rx_match_Cat_empty, rule rx_match_Cat_empty, rule rx_match_Cat_empty,
      rule rx_match_Cat_empty1, rule rx_match_Cat_empty, rule rx_match_Cat_empty1)
    fix b1 s1 c1 b2 s2 c2 b3 s3 c3 b4 s4 c4
    assume 1: "(b1, s1, c1) \<in> set (rx_match (Group 1 timestamp_rx) ([], s, Map.empty))"
      and 2: "(b2, s2, c2) \<in> set (rx_match (Lit '' - '') (b1, s1, c1))"
      and 3: "(b3, s3, c3) \<in> set (rx_match
                (Group 2 (Cat Dot_lazy_plus (Ahead (Alt (Lit ''.'') (Lit ''?''))))) (b2, s2, c2))"
      and 4: "(b4, s4, c4) \<in> set (rx_match (Behind_ref 2) (b3, s3, c3))"
    from rx_match_text [OF 1] have "rev b1 @ s1 = s" by simp
    with rx_match_text [OF 2] have "rev b2 @ s2 = s" by simp
    with rx_match_text [OF 3] have "rev b3 @ s3 = s" by simp
    with rx_match_text [OF 4] have "rev b4 @ s4 = s" by simp
    then show "rx_match (Lit ''. '') (b4, s4, c4) = []" by (rule lit)
  qed
  then show ?thesis by (simp add: extract_note_fields_def regex_match_def)
qed

text \<open>
  C5. The title group stops before a \<open>.\<close> or a \<open>?\<close>, but the pattern goes on with a
  literal \<open>.\<close> and a space: the block of the example with \<open>?\<close> in place of the \<open>.\<close>
  has no match.
\<close>

theorem question_mark_title_not_matched:
  "extract_note_fields
     ''2024-01-01 10:00:00 - Buy milk? Need milk for coffee tags: [errand, home,]'' = None"
  by code_simp


section \<open>Cleaning a title\<close>

lemma fold_delete_char: "fold delete_char cs s = filter (\<lambda>c. c \<notin> set cs) s"
  by (induction cs arbitrary: s) (auto simp: delete_char_def intro: filter_cong)

lemma delete_disallowed:
  "fold delete_char [CHR 0x22, CHR '','', CHR ''-'', CHR 0x27, CHR ''?'', CHR ''^''] s =
     filter (\<lambda>c. c \<notin> set [CHR 0x22, CHR '','', CHR ''-'', CHR 0x27, CHR ''?'', CHR ''^'']) s"
  by (rule fold_delete_char)

lemma clean_name_spec:
  "clean_name ttl =
     (if strip (lower ttl) = [] then Inl (IndexError ''string index out of range'')
      else Inr (spec_filename ttl))"
  unfolding clean_name_def spec_filename_def Let_def delete_disallowed by simp

lemma lower_char_idem: "lower_char (lower_char c) = lower_char c"
  by (auto simp: lower_char_def split: option.splits if_splits)

lemma set_strip: "set (strip s) \<subseteq> set s"
proof -
  have "set (strip s) \<subseteq> set (lstrip s)"
    unfolding strip_def rstrip_def using set_dropWhileD [of _ is_space "rev (lstrip s)"] by auto
  also have "\<dots> \<subseteq> set s"
    unfolding lstrip_def using set_dropWhileD [of _ is_space s] by auto
  finally show ?thesis .
qed

text \<open>
  C6. The cleaning steps of the code are the steps of the specification only for a title
  that is not empty once lower-cased and trimmed. A block whose title is one space is
  decomposed, and for that title \<open>name[-1]\<close> raises \<open>IndexError\<close>, where the steps of
  the specification give \<open>.md\<close>.
\<close>

theorem blank_title_has_no_filename:
  "extract_note_fields ''2024-01-01 10:00:00 -  . x tags: [a]'' =
     Some \<lparr>datetime = ''2024-01-01 10:00:00'', title = '' '', content = ''x'',
           tags = ''[a]'', filename = None, cleaned_tags = None\<rparr>
   \<and> clean_name '' '' = Inl (IndexError ''string index out of range'')
   \<and> spec_filename '' '' = ''.md''"
  by code_simp

section \<open>Cleaning a name twice\<close>

lemma clean_name_shape:
  assumes "clean_name ttl = Inr n"
  shows "\<exists>m. n = m @ ''.md'' \<and> (\<forall>c \<in> set n. clean_char c)"
proof -
  define trimmed where "trimmed = strip (lower ttl)"
  define u where "u = (if last trimmed \<in> set [CHR ''?'', CHR '','', CHR ''.'']
                        then butlast trimmed else trimmed)"
  define m where "m = filter (\<lambda>c. c \<notin> set [CHR 0x22, CHR '','', CHR ''-'', CHR 0x27, CHR ''?'', CHR ''^''])
                        (replace_char CHR '' '' CHR ''_'' u)"
  from assms have n: "n = m @ ''.md''"
    unfolding clean_name_def Let_def delete_disallowed m_def u_def trimmed_def
    by (auto split: if_splits)
  have "set u \<subseteq> set trimmed"
    unfolding u_def by (auto dest: in_set_butlastD)
  also have "\<dots> \<subseteq> set (lower ttl)" unfolding trimmed_def by (rule set_strip)
  finally have u: "\<forall>c \<in> set u. lower_char c = c"
    by (auto simp: lower_def lower_char_idem)
  have lu: "lower_char CHR ''_'' = CHR ''_''" by (simp add: lower_char_def)
  have "\<forall>c \<in> set (replace_char CHR '' '' CHR ''_'' u). lower_char c = c \<and> c \<noteq> CHR '' ''"
    using u lu by (auto simp: replace_char_def)
  then have "\<forall>c \<in> set m. clean_char c"
    unfolding m_def clean_char_def by auto
  moreover have "\<forall>c \<in> set ''.md''. clean_char c"
    by (simp add: clean_char_def lower_char_def)
  ultimately show ?thesis using n by auto
qed

lemma not_space_md: "\<not> is_space CHR ''.''" "\<not> is_space CHR ''d''"
  by (simp_all add: is_space_def)

lemma lstrip_md: "lstrip (m @ ''.md'') = lstrip m @ ''.md''"
  unfolding lstrip_def by (simp add: dropWhile_append not_space_md)

lemma rstrip_md: "rstrip (x @ ''.md'') = x @ ''.md''"
  unfolding rstrip_def by (simp add: not_space_md)

lemma set_lstrip: "set (lstrip s) \<subseteq> set s"
  unfolding lstrip_def using set_dropWhileD [of _ is_space s] by auto

lemma clean_name_again:
  assumes "\<forall>c \<in> set (m @ ''.md''). clean_char c"
  shows "clean_name (m @ ''.md'') = Inr (lstrip (m @ ''.md'') @ ''.md'')"
proof -
  let ?n = "m @ ''.md''"
  let ?x = "lstrip m"
  have low: "lower ?n = ?n"
    unfolding lower_def using assms by (intro map_idI) (auto simp: clean_char_def)
  have st: "strip ?n = ?x @ ''.md''"
    unfolding strip_def by (simp only: lstrip_md rstrip_md)
  have cl: "\<forall>c \<in> set (?x @ ''.md''). clean_char c"
    using assms set_lstrip [of m] by auto
  have rep: "replace_char CHR '' '' CHR ''_'' (?x @ ''.md'') = ?x @ ''.md''"
    unfolding replace_char_def using cl by (intro map_idI) (auto simp: clean_char_def)
  have cl2: "\<forall>c \<in> set (?x @ ''.md'' @ ''.md''). clean_char c"
    using cl by auto
  have fil: "filter (\<lambda>c. c \<notin> set [CHR 0x22, CHR '','', CHR ''-'', CHR 0x27, CHR ''?'', CHR ''^''])
               (?x @ ''.md'' @ ''.md'') = ?x @ ''.md'' @ ''.md''"
    using cl2 unfolding clean_char_def by (intro filter_True) blast
  have "clean_name ?n = Inr (?x @ ''.md'' @ ''.md'')"
    unfolding clean_name_def low st Let_def delete_disallowed using rep fil by simp
  then show ?thesis by (simp add: lstrip_md)
qed

lemma lstrip_md_differs: "lstrip (m @ ''.md'') @ ''.md'' \<noteq> m @ ''.md''"
proof
  assume eq: "lstrip (m @ ''.md'') @ ''.md'' = m @ ''.md''"
  let ?n = "m @ ''.md''"
  have ne: "dropWhile is_space ?n \<noteq> []"
    by (simp add: dropWhile_eq_Nil_conv not_space_md)
  then have "\<not> is_space (hd (dropWhile is_space ?n))" by (rule hd_dropWhile)
  moreover from eq ne have "hd ?n = hd (dropWhile is_space ?n)"
    unfolding lstrip_def by (metis hd_append2)
  ultimately have "\<not> is_space (hd ?n)" by simp
  then have "dropWhile is_space ?n = ?n" by (cases ?n) auto
  with eq show False unfolding lstrip_def by simp
qed

text \<open>
  C9, as stated, fails: the name \<open>call_bob.md\<close> that the cleaning steps produce is
  cleaned to \<open>call_bob.md.md\<close>.
\<close>

theorem clean_name_not_idempotent:
  "clean_name ''Call Bob?'' = Inr ''call_bob.md''
   \<and> clean_name ''call_bob.md'' = Inr ''call_bob.md.md''
   \<and> clean_name ''call_bob.md'' \<noteq> Inr ''call_bob.md''"
  by code_simp

text \<open>
  C9, amended. Cleaning a name that the cleaning steps produced gives that name, without
  its leading whitespace, followed by the extension once more; it never gives the same
  name.
\<close>

theorem clean_name_twice:
  assumes "clean_name ttl = Inr n"
  shows "clean_name n = Inr (lstrip n @ ''.md'') \<and> clean_name n \<noteq> Inr n"
proof -
  from assms obtain m where m: "n = m @ ''.md''" "\<forall>c \<in> set n. clean_char c"
    using clean_name_shape by blast
  then have a: "clean_name n = Inr (lstrip n @ ''.md'')"
    using clean_name_again by simp
  moreover have "lstrip n @ ''.md'' \<noteq> n" unfolding m(1) by (rule lstrip_md_differs)
  ultimately show ?thesis by simp
qed

theorem clean_name_twice_witness:
  "clean_name ''Buy milk'' = Inr ''buy_milk.md''
   \<and> clean_name ''buy_milk.md'' = Inr (lstrip ''buy_milk.md'' @ ''.md'')
   \<and> clean_name ''buy_milk.md'' \<noteq> Inr ''buy_milk.md''"
proof -
  have h: "clean_name ''Buy milk'' = Inr ''buy_milk.md''"
    by code_simp
  from h clean_name_twice [OF h] show ?thesis by (rule conjI)
qed

section \<open>The scratch directory and the probe\<close>

lemma probe_names_keeps:
  assumes "probe_names d ns s = (r, s')"
  shows "dirs s' = dirs s \<and> set (map fst (files s')) \<subseteq> set (map fst (files s))"
  using assms
proof (induction ns arbitrary: s r s')
  case Nil
  then show ?case by simp
next
  case (Cons n ns)
  show ?case
  proof (cases "clean_name (title n)")
    case (Inl e)
    with Cons.prems show ?thesis by simp
  next
    case (Inr name)
    let ?p = "joinpath d name"
    show ?thesis
    proof (cases "touch ?p s")
      case (Inl e)
      with Cons.prems Inr show ?thesis
        by (auto simp: Let_def unlink_def split: sum.splits if_splits)
    next
      case touched: (Inr s1)
      then have s1: "s1 = s\<lparr>files := (?p, []) # files s\<rparr>"
        by (auto simp: touch_def split: if_splits option.splits)
      have nf: "\<not> is_file ?p s"
        using touched by (auto simp: touch_def path_exists_def split: if_splits)
      have nn: "\<not> embedded_null ?p"
        using touched by (auto simp: touch_def split: if_splits)
      have u: "unlink ?p s1 = Inr (s\<lparr>files := filter (\<lambda>(q, _). q \<noteq> ?p) (files s)\<rparr>)"
        unfolding s1 using nn by (simp add: unlink_def is_file_def)
      let ?s2 = "s\<lparr>files := filter (\<lambda>(q, _). q \<noteq> ?p) (files s)\<rparr>"
      obtain r2 s3 where rec: "probe_names d ns ?s2 = (r2, s3)" by force
      from Cons.IH [OF rec]
      have "dirs s3 = dirs s \<and> set (map fst (files s3)) \<subseteq> set (map fst (files s))"
        by auto
      moreover from Cons.prems Inr touched u rec have "s' = s3"
        by (auto simp: Let_def split: sum.splits)
      ultimately show ?thesis by simp
    qed
  qed
qed

lemma scratch_dir_removed:
  assumes absent: "\<not> path_exists (scratch_dir ev) s"
      and empty: "\<forall>q \<in> set (dirs s @ map fst (files s)). path_parent q \<noteq> scratch_dir ev"
  shows "\<not> is_dir (scratch_dir ev) (snd (add_filenames ev ns s))"
proof (cases "mkdir (scratch_dir ev) s")
  case (Inl e)
  with absent show ?thesis
    by (auto simp: add_filenames_def Let_def rmdir_def path_exists_def split: sum.splits if_splits)
next
  case (Inr s1)
  then have s1: "s1 = s\<lparr>dirs := scratch_dir ev # dirs s\<rparr>"
    by (auto simp: mkdir_def split: if_splits option.splits)
  obtain r s2 where p: "probe_names (scratch_dir ev) ns s1 = (r, s2)" by force
  from probe_names_keeps [OF p] s1
  have d2: "dirs s2 = scratch_dir ev # dirs s"
    and f2: "set (map fst (files s2)) \<subseteq> set (map fst (files s))" by auto
  from absent f2 have nf: "\<not> is_file (scratch_dir ev) s2"
    by (auto simp: path_exists_def is_file_def)
  from absent have nd: "scratch_dir ev \<notin> set (dirs s)"
    by (simp add: path_exists_def is_dir_def)
  from Inr have nn: "\<not> embedded_null (scratch_dir ev)"
    by (auto simp: mkdir_def split: if_splits)
  have "rmdir (scratch_dir ev) s2 = Inr (s2\<lparr>dirs := removeAll (scratch_dir ev) (dirs s2)\<rparr>)"
    using nf nn d2 f2 empty by (auto simp: rmdir_def is_dir_def)
  with Inr p d2 nd show ?thesis
    by (simp add: add_filenames_def Let_def is_dir_def)
qed

text \<open>
  A probe that the file system refuses: the note titled \<open>a/b\<close> has the name
  \<open>a/b.md\<close>, and the scratch directory has no directory \<open>a\<close>. The error of
  \<open>touch\<close> is given the note with the name, but the \<open>finally\<close> clause unlinks a
  probe that does not exist, and the error of \<open>unlink\<close> propagates in its place: it
  has the path of the probe and no note.
\<close>

lemma probe_note_lost:
  "touch ''/repo/test_valid_names/a/b.md''
       (example_fs\<lparr>dirs := ''/repo/test_valid_names'' # dirs example_fs\<rparr>) =
     Inl (OSError FileNotFound ''/repo/test_valid_names/a/b.md'' [])
   \<and> add_filenames example_env
       [\<lparr>datetime = ''2024-01-01T10:00:00'', title = ''a/b'', content = ''x'',
         tags = ''[t]'', filename = None, cleaned_tags = None\<rparr>] example_fs =
     (Inl (OSError FileNotFound ''/repo/test_valid_names/a/b.md'' []), example_fs)"
  by code_simp

text \<open>
  C8. A block whose title holds a NUL character is decomposed, and the cleaning steps keep
  the character in the name. Creating the probe fails with \<open>ValueError\<close>, which
  \<open>except OSError\<close> does not catch; the \<open>finally\<close> clause unlinks the probe and fails
  in the same way. The scratch directory is removed, and the error that leaves
  \<open>add_filenames\<close>, and the entry operation, is \<open>ValueError\<close> with the message
  \<open>embedded null byte\<close>: the name of the candidate is no part of it.
\<close>

theorem probe_error_without_name:
  "extract_note_fields (''2024-01-01 10:00:00 - a'' @ [CHR 0x00] @ ''b. x tags: [t]'') =
     Some \<lparr>datetime = ''2024-01-01 10:00:00'', title = ''a'' @ [CHR 0x00] @ ''b'',
           content = ''x'', tags = ''[t]'', filename = None, cleaned_tags = None\<rparr>
   \<and> clean_name (''a'' @ [CHR 0x00] @ ''b'') = Inr (''a'' @ [CHR 0x00] @ ''b.md'')
   \<and> add_filenames example_env
       [\<lparr>datetime = ''2024-01-01T10:00:00'', title = ''a'' @ [CHR 0x00] @ ''b'',
         content = ''x'', tags = ''[t]'', filename = None, cleaned_tags = None\<rparr>] example_fs =
     (Inl (ValueError ''embedded null byte''), example_fs)
   \<and> \<not> (\<exists>pre post.
          ''embedded null byte'' = pre @ (''a'' @ [CHR 0x00] @ ''b.md'') @ post)
   \<and> flat_note_to_atoms example_env ''/log.md'' ''/out'' False
       \<lparr>dirs = [''/'', ''/repo'', ''/out''],
        files = [(''/log.md'',
                  ''2024-01-01 10:00:00 - a'' @ [CHR 0x00] @ ''b. x tags: [t]'')]\<rparr> =
     (Inl (ValueError ''embedded null byte''),
      \<lparr>dirs = [''/'', ''/repo'', ''/out''],
       files = [(''/log.md'',
                 ''2024-01-01 10:00:00 - a'' @ [CHR 0x00] @ ''b. x tags: [t]'')]\<rparr>)"
proof -
  have run:
    "extract_note_fields (''2024-01-01 10:00:00 - a'' @ [CHR 0x00] @ ''b. x tags: [t]'') =
       Some \<lparr>datetime = ''2024-01-01 10:00:00'', title = ''a'' @ [CHR 0x00] @ ''b'',
             content = ''x'', tags = ''[t]'', filename = None, cleaned_tags = None\<rparr>
     \<and> clean_name (''a'' @ [CHR 0x00] @ ''b'') = Inr (''a'' @ [CHR 0x00] @ ''b.md'')
     \<and> add_filenames example_env
         [\<lparr>datetime = ''2024-01-01T10:00:00'', title = ''a'' @ [CHR 0x00] @ ''b'',
           content = ''x'', tags = ''[t]'', filename = None, cleaned_tags = None\<rparr>]
         example_fs =
       (Inl (ValueError ''embedded null byte''), example_fs)
     \<and> flat_note_to_atoms example_env ''/log.md'' ''/out'' False
         \<lparr>dirs = [''/'', ''/repo'', ''/out''],
          files = [(''/log.md'',
                    ''2024-01-01 10:00:00 - a'' @ [CHR 0x00] @ ''b. x tags: [t]'')]\<rparr> =
       (Inl (ValueError ''embedded null byte''),
        \<lparr>dirs = [''/'', ''/repo'', ''/out''],
         files = [(''/log.md'',
                   ''2024-01-01 10:00:00 - a'' @ [CHR 0x00] @ ''b. x tags: [t]'')]\<rparr>)"
    by code_simp
  have unnamed:
    "\<not> (\<exists>pre post. ''embedded null byte'' = pre @ (''a'' @ [CHR 0x00] @ ''b.md'') @ post)"
  proof
    assume "\<exists>pre post. ''embedded null byte'' = pre @ (''a'' @ [CHR 0x00] @ ''b.md'') @ post"
    then obtain pre post
      where e: "''embedded null byte'' = pre @ (''a'' @ [CHR 0x00] @ ''b.md'') @ post"
      by blast
    have "CHR 0x00 \<in> set (pre @ (''a'' @ [CHR 0x00] @ ''b.md'') @ post)" by simp
    with e have "CHR 0x00 \<in> set ''embedded null byte''" by metis
    then show False by simp
  qed
  from run unnamed show ?thesis by blast
qed

end
